theory Spec2Isabelle
  imports Complex_Main "HOL-Library.Word"
begin

section \<open>The omnishard mock server (exporter/omnishard/mock\_server.go)\<close>

subsection \<open>Messages of the generated package omnishardpb\<close>

type_synonym byte = "8 word"

text \<open>
  A Go byte slice is either nil or a sequence of bytes: \<open>None\<close> is the nil slice,
  \<open>Some []\<close> the empty one.
\<close>

type_synonym bytes = "byte list option"

text \<open>
  The generated message types of package omnishardpb are not among the sources. Each is
  declared here with the field names that the sources read and the field types of
  section 3 of the specification.
\<close>

text \<open>
  Modelled from the spec: the message ShardDefinition, with \<open>shard_id\<close> an integer and
  the two keys byte sequences.
\<close>

record ShardDefinition =
  ShardId :: int
  StartingHashKey :: bytes
  EndingHashKey :: bytes

text \<open>
  Modelled from the spec: the message ShardingConfig, the PartitionMap of the
  specification. \<open>ShardDefinitions\<close> is a slice of pointers: an element is \<open>None\<close> when
  the pointer is nil.
\<close>

record ShardingConfig =
  ShardDefinitions :: "ShardDefinition option list"

text \<open>
  Modelled from the spec: the message EncodedRecord. \<open>SpanCount\<close> holds the numeric
  value of the integer field \<open>span_count\<close>.
\<close>

record EncodedRecord =
  PartitionKey :: string
  SpanCount :: int
  Payload :: "byte list"

text \<open>
  Modelled from the spec: the message ExportRequest. \<open>Shard\<close> and \<open>Record\<close> are
  pointers; \<open>None\<close> is nil.
\<close>

record ExportRequest =
  Shard :: "ShardDefinition option"
  Record :: "EncodedRecord option"

text \<open>
  Modelled from the spec: the enumeration ExportResponse\_ResultCode, one of OK and
  SHARD\_CONFIG\_MISMATCH, which the source spells \<open>SHARD_CONFIG_MISTMATCH\<close>.
\<close>

datatype ResultCode = OK | SHARD_CONFIG_MISTMATCH

text \<open>Modelled from the spec: the message ExportResponse.\<close>

record ExportResponse =
  ResultCode :: ResultCode
  ShardingConfig :: "ShardingConfig option"

subsection \<open>Errors\<close>

text \<open>The status codes of google.golang.org/grpc/codes.\<close>

datatype grpc_code =
  Code_OK | Canceled | Unknown | InvalidArgument | DeadlineExceeded | NotFound
  | AlreadyExists | PermissionDenied | ResourceExhausted | FailedPrecondition | Aborted
  | OutOfRange | Unimplemented | Internal | Unavailable | DataLoss | Unauthenticated

text \<open>
  The error values the server returns:
  \<^item> \<open>NoMetadataError\<close> is
    \<^verbatim>\<open>errors.New("missing expected headers: no metadata on context")\<close>;
  \<^item> \<open>HeaderError k v vals\<close> is
    \<^verbatim>\<open>fmt.Errorf("missing header key %q or incorrect value (want %q) got: %q", k, v, vals)\<close>;
  \<^item> \<open>StatusError c msg d\<close> is the error of \<^verbatim>\<open>status.New(c, msg)\<close> with a RetryInfo
    detail of \<open>d\<close> nanoseconds.
  The first two are plain Go errors; only the third carries a gRPC status code.
\<close>

datatype go_error =
  NoMetadataError
  | HeaderError string string "string list"
  | StatusError grpc_code string int

fun status_code :: "go_error \<Rightarrow> grpc_code option" where
  "status_code NoMetadataError = None"
| "status_code (HeaderError k v vals) = None"
| "status_code (StatusError c msg d) = Some c"

subsection \<open>Server state\<close>

record mockServerSink =
  requests :: "ExportRequest list"
  records :: "EncodedRecord option list"

text \<open>
  The fields of mockServer that the handlers read or write. The grpc.Server handle and
  the two mutexes are left out: the model runs one request at a time.
\<close>

record mockServer =
  Sink :: mockServerSink
  RandomServerError :: bool
  nextResponseCode :: ResultCode
  nextResponseShardingConfig :: "ShardingConfig option"
  config :: "ShardingConfig option"

text \<open>
  The metadata of an incoming call, seen through its accessor: \<open>md k\<close> is the slice
  that \<^verbatim>\<open>md.Get(k)\<close> returns, empty when nothing is stored under \<open>k\<close>. A context
  is \<open>None\<close> when \<^verbatim>\<open>metadata.FromIncomingContext\<close> reports no metadata.
\<close>

type_synonym MD = "string \<Rightarrow> string list"
type_synonym call_ctx = "MD option"

text \<open>
  \<open>headers\<close> is a Go map; the list holds its entries in the order in which the range
  loop of checkRequiredHeaders visits them; a nil map is the empty list. The callback
  may change the server it closes over, so it is a function on the server state; it is
  taken to be registered (not a nil function).
\<close>

record gRPCServer =
  srv :: mockServer
  onReceive :: "ExportRequest \<Rightarrow> mockServer \<Rightarrow> mockServer"
  headers :: "(string \<times> string) list"

definition SetRequiredHeaders :: "gRPCServer \<Rightarrow> (string \<times> string) list \<Rightarrow> gRPCServer" where
  "SetRequiredHeaders s hs = s\<lparr>headers := hs\<rparr>"

definition GetConfig :: "mockServer \<Rightarrow> ShardingConfig option" where
  "GetConfig sv = config sv"

definition SetConfig :: "mockServer \<Rightarrow> ShardingConfig option \<Rightarrow> mockServer" where
  "SetConfig sv c = sv\<lparr>config := c\<rparr>"

definition onReceive_sink :: "mockServerSink \<Rightarrow> ExportRequest \<Rightarrow> mockServerSink" where
  "onReceive_sink mss request =
     mss\<lparr>requests := requests mss @ [request], records := records mss @ [Record request]\<rparr>"

definition GetRecords :: "mockServerSink \<Rightarrow> EncodedRecord option list" where
  "GetRecords mss = records mss"

text \<open>The callback that runServer registers: it hands the request to the server's sink.\<close>

definition onReceiveFunc :: "ExportRequest \<Rightarrow> mockServer \<Rightarrow> mockServer" where
  "onReceiveFunc request sv = sv\<lparr>Sink := onReceive_sink (Sink sv) request\<rparr>"

text \<open>
  The gRPC server that Listen registers: the headers are set only when there are some.
  Listening and serving themselves are not modelled.
\<close>

definition Listen ::
  "mockServer \<Rightarrow> (ExportRequest \<Rightarrow> mockServer \<Rightarrow> mockServer) \<Rightarrow> (string \<times> string) list \<Rightarrow>
   gRPCServer" where
  "Listen sv cb hs =
     (if length hs > 0
      then SetRequiredHeaders \<lparr>srv = sv, onReceive = cb, headers = []\<rparr> hs
      else \<lparr>srv = sv, onReceive = cb, headers = []\<rparr>)"

definition runServer :: "mockServer \<Rightarrow> (string \<times> string) list \<Rightarrow> gRPCServer" where
  "runServer sv hs = Listen sv onReceiveFunc hs"

text \<open>
  newMockServer: every field at its zero value but \<open>config\<close>, which points to an empty
  ShardingConfig. The result code of a fresh server is the parameter \<open>rc0\<close>, the zero
  value of the generated enumeration.
\<close>

definition newMockServer :: "ResultCode \<Rightarrow> mockServer" where
  "newMockServer rc0 =
     \<lparr>Sink = \<lparr>requests = [], records = []\<rparr>, RandomServerError = False,
      nextResponseCode = rc0, nextResponseShardingConfig = None,
      config = Some \<lparr>ShardDefinitions = []\<rparr>\<rparr>"

subsection \<open>Shard matching\<close>

text \<open>
  bytes.Compare of the Go standard library: \<open>-1\<close>, \<open>0\<close> or \<open>1\<close> as the first slice
  is below, equal to or above the second, byte by byte, a proper prefix being below; a
  nil argument counts as the empty slice.
\<close>

fun Compare_list :: "byte list \<Rightarrow> byte list \<Rightarrow> int" where
  "Compare_list [] [] = 0"
| "Compare_list [] (y # ys) = - 1"
| "Compare_list (x # xs) [] = 1"
| "Compare_list (x # xs) (y # ys) =
     (if x < y then - 1 else if y < x then 1 else Compare_list xs ys)"

definition bytes_Compare :: "bytes \<Rightarrow> bytes \<Rightarrow> int" where
  "bytes_Compare a b =
     Compare_list (case a of None \<Rightarrow> [] | Some xs \<Rightarrow> xs) (case b of None \<Rightarrow> [] | Some ys \<Rightarrow> ys)"

definition compareHashKey :: "bytes \<Rightarrow> bytes \<Rightarrow> int" where
  "compareHashKey k1 k2 =
     (let k1' = (if k1 = None then Some [] else k1);
          k2' = (if k2 = None then Some [] else k2)
      in bytes_Compare k1' k2')"

text \<open>
  The loop of shardIsPartOfConfig over the shard definitions. Reading a field through a
  nil pointer panics: the result is \<open>None\<close> then. The conjunction is evaluated left to
  right, so \<open>s\<close> is read first and \<open>shard\<close> second, and only when the loop body runs.
\<close>

fun shardLoop :: "ShardDefinition option \<Rightarrow> ShardDefinition option list \<Rightarrow> bool option" where
  "shardLoop shard [] = Some False"
| "shardLoop shard (None # rest) = None"
| "shardLoop None (Some s # rest) = None"
| "shardLoop (Some sh) (Some s # rest) =
     (if ShardId s = ShardId sh \<and>
         compareHashKey (StartingHashKey s) (StartingHashKey sh) = 0 \<and>
         compareHashKey (EndingHashKey s) (EndingHashKey sh) = 0
      then Some True
      else shardLoop (Some sh) rest)"

definition shardIsPartOfConfig :: "ShardDefinition option \<Rightarrow> ShardingConfig option \<Rightarrow> bool option" where
  "shardIsPartOfConfig shard cfg =
     (case cfg of None \<Rightarrow> None | Some c \<Rightarrow> shardLoop shard (ShardDefinitions c))"

subsection \<open>The handlers\<close>

fun checkHeaderLoop :: "(string \<times> string) list \<Rightarrow> MD \<Rightarrow> go_error option" where
  "checkHeaderLoop [] md = None"
| "checkHeaderLoop ((k, v) # rest) md =
     (let vals = md k
      in if length vals \<noteq> 1 \<or> vals ! 0 \<noteq> v then Some (HeaderError k v vals)
         else checkHeaderLoop rest md)"

text \<open>The result is the error returned, \<open>None\<close> for Go's nil error.\<close>

definition checkRequiredHeaders :: "gRPCServer \<Rightarrow> call_ctx \<Rightarrow> go_error option" where
  "checkRequiredHeaders s ctx =
     (if length (headers s) < 1 then None
      else case ctx of
             None \<Rightarrow> Some NoMetadataError
           | Some md \<Rightarrow> checkHeaderLoop (headers s) md)"

text \<open>
  The constant \<open>0.1\<close> of the comparison with rand.Float64() is the float64 nearest to
  one tenth.
\<close>

definition float64_tenth :: rat where
  "float64_tenth = 3602879701896397 / 36028797018963968"

text \<open>
  What a handler call comes to: it returns an error or a response, or it panics.
\<close>

datatype 'a outcome = Panicked | Returned "go_error + 'a"

text \<open>
  Export. \<open>rnd\<close> is the value that rand.Float64() yields if it is called. The result
  is the outcome and the state of the mock server afterwards. The response is built
  after the callback has run, from the server as the callback left it.
\<close>

definition Export ::
  "gRPCServer \<Rightarrow> call_ctx \<Rightarrow> rat \<Rightarrow> ExportRequest \<Rightarrow> ExportResponse outcome \<times> mockServer" where
  "Export s ctx rnd request =
     (case checkRequiredHeaders s ctx of
        Some err \<Rightarrow> (Returned (Inl err), srv s)
      | None \<Rightarrow>
          if RandomServerError (srv s) \<and> rnd < float64_tenth
          then (Returned (Inl (StatusError Unavailable ''Server is unavailable'' (1000000 * 100))),
                srv s)
          else (case shardIsPartOfConfig (Shard request) (GetConfig (srv s)) of
                  None \<Rightarrow> (Panicked, srv s)
                | Some False \<Rightarrow>
                    (Returned (Inr \<lparr>ResultCode = SHARD_CONFIG_MISTMATCH,
                                    ShardingConfig = GetConfig (srv s)\<rparr>),
                     srv s)
                | Some True \<Rightarrow>
                    (let sv = onReceive s request (srv s)
                     in (Returned (Inr \<lparr>ResultCode = nextResponseCode sv,
                                         ShardingConfig = nextResponseShardingConfig sv\<rparr>),
                         sv))))"

definition GetShardingConfig ::
  "gRPCServer \<Rightarrow> call_ctx \<Rightarrow> ShardingConfig option outcome \<times> mockServer" where
  "GetShardingConfig s ctx =
     (case checkRequiredHeaders s ctx of
        Some err \<Rightarrow> (Returned (Inl err), srv s)
      | None \<Rightarrow> (Returned (Inr (GetConfig (srv s))), srv s))"

subsection \<open>Observing calls\<close>

text \<open>The result code of the response, if the call returned one.\<close>

fun response_code :: "ExportResponse outcome \<Rightarrow> ResultCode option" where
  "response_code (Returned (Inr resp)) = Some (ResultCode resp)"
| "response_code (Returned (Inl e)) = None"
| "response_code Panicked = None"

text \<open>The gRPC status code of the error, if the call returned a status error.\<close>

fun outcome_status :: "'a outcome \<Rightarrow> grpc_code option" where
  "outcome_status (Returned (Inl e)) = status_code e"
| "outcome_status (Returned (Inr r)) = None"
| "outcome_status Panicked = None"

text \<open>
  A client that sends the same request once for every element of \<open>rnds\<close> (the draws of
  rand.Float64 in the successive calls), each call finding the server as the call before
  left it; the result is the list of outcomes.
\<close>

fun resubmit :: "gRPCServer \<Rightarrow> call_ctx \<Rightarrow> rat list \<Rightarrow> ExportRequest \<Rightarrow> ExportResponse outcome list" where
  "resubmit g ctx [] request = []"
| "resubmit g ctx (rnd # rnds) request =
     (case Export g ctx rnd request of
        (out, sv) \<Rightarrow> out # resubmit (g\<lparr>srv := sv\<rparr>) ctx rnds request)"

subsection \<open>Notions of the specification\<close>

text \<open>The byte sequence a key stands for, a nil key read as the empty sequence.\<close>

definition key_bytes :: "bytes \<Rightarrow> byte list" where
  "key_bytes k = (case k of None \<Rightarrow> [] | Some xs \<Rightarrow> xs)"

text \<open>
  Lexicographic comparison of byte sequences, stated with the lexicographic order of
  the list library over the order of bytes as unsigned numbers.
\<close>

definition lex_compare :: "byte list \<Rightarrow> byte list \<Rightarrow> int" where
  "lex_compare xs ys =
     (if (xs, ys) \<in> lexord {(a, b). a < b} then - 1 else if xs = ys then 0 else 1)"

text \<open>
  The exact match of the specification: same shard id, same starting key and same
  ending key as byte sequences.
\<close>

definition exact_match :: "ShardDefinition \<Rightarrow> ShardDefinition \<Rightarrow> bool" where
  "exact_match s sh \<longleftrightarrow>
     ShardId s = ShardId sh \<and>
     key_bytes (StartingHashKey s) = key_bytes (StartingHashKey sh) \<and>
     key_bytes (EndingHashKey s) = key_bytes (EndingHashKey sh)"

subsection \<open>Example values\<close>

text \<open>
  The partition map of the specification's scenario: shard 1 from the beginning to
  \<open>m\<close> (byte \<open>0x6d\<close>), shard 2 from \<open>m\<close> to the end.
\<close>

definition shard_one :: ShardDefinition where
  "shard_one = \<lparr>ShardId = 1, StartingHashKey = Some [], EndingHashKey = Some [0x6d]\<rparr>"

definition shard_two :: ShardDefinition where
  "shard_two = \<lparr>ShardId = 2, StartingHashKey = Some [0x6d], EndingHashKey = None\<rparr>"

definition config_two :: ShardingConfig where
  "config_two = \<lparr>ShardDefinitions = [Some shard_one, Some shard_two]\<rparr>"

text \<open>
  A server holding that map, as runServer sets it up without and with a required header,
  requests for shard 1 of the map and for a shard the map does not have, and the metadata
  of calls that carry the header once and twice.
\<close>

definition server_two :: mockServer where
  "server_two = SetConfig (newMockServer OK) (Some config_two)"

definition grpc_open :: gRPCServer where
  "grpc_open = runServer server_two []"

definition grpc_keyed :: gRPCServer where
  "grpc_keyed = runServer server_two [(''x-api-key'', ''secret'')]"

definition record_apple :: EncodedRecord where
  "record_apple = \<lparr>PartitionKey = ''apple'', SpanCount = 3, Payload = []\<rparr>"

definition request_one :: ExportRequest where
  "request_one = \<lparr>Shard = Some shard_one, Record = Some record_apple\<rparr>"

definition request_stale :: ExportRequest where
  "request_stale =
     \<lparr>Shard = Some \<lparr>ShardId = 1, StartingHashKey = Some [], EndingHashKey = None\<rparr>,
      Record = Some record_apple\<rparr>"

definition md_secret :: MD where
  "md_secret k = (if k = ''x-api-key'' then [''secret''] else [])"

definition md_twice :: MD where
  "md_twice k = (if k = ''x-api-key'' then [''secret'', ''other''] else [])"

text \<open>The open server with its next response set to a mismatch that carries a map.\<close>

definition grpc_scripted :: gRPCServer where
  "grpc_scripted =
     grpc_open\<lparr>srv := server_two\<lparr>nextResponseCode := SHARD_CONFIG_MISTMATCH,
                                   nextResponseShardingConfig := Some config_two\<rparr>\<rparr>"

text \<open>Metadata without any header, and the open server with the error simulation on.\<close>

definition md_empty :: MD where
  "md_empty k = []"

definition grpc_flaky :: gRPCServer where
  "grpc_flaky = grpc_open\<lparr>srv := server_two\<lparr>RandomServerError := True\<rparr>\<rparr>"

section \<open>The test utilities\<close>

subsection \<open>encoderSink\<close>

text \<open>
  Go's \<open>int\<close>, at its width on 64-bit platforms: addition wraps, \<open>sint\<close> reads the
  value.
\<close>

type_synonym go_int = "64 word"

text \<open>
  encoderSink, without its mutex. \<open>'span\<close> is the type of the pointers to jaeger spans.
  \<open>encodedRecords\<close> holds the records behind the appended pointers: onReady reads
  \<open>record.SpanCount\<close> before it appends, so no nil pointer is ever appended.
\<close>

record 'span encoderSink =
  successSpanCount :: go_int
  encodedRecords :: "EncodedRecord list"
  failSpanCount :: go_int
  failedSpans :: "'span list"

text \<open>
  onReady panics (\<open>None\<close>) on a nil record. \<open>int(record.SpanCount)\<close> converts the value
  of the field to Go's \<open>int\<close>. The spans and the shard are not used.
\<close>

definition onReady ::
  "'span encoderSink \<Rightarrow> EncodedRecord option \<Rightarrow> 'span list \<Rightarrow> 'shard \<Rightarrow> 'span encoderSink option" where
  "onReady es rec originalSpans shard =
     (case rec of
        None \<Rightarrow> None
      | Some r \<Rightarrow>
          Some (es\<lparr>successSpanCount := successSpanCount es + word_of_int (SpanCount r),
                   encodedRecords := encodedRecords es @ [r]\<rparr>))"

definition onFail :: "'span encoderSink \<Rightarrow> 'span list \<Rightarrow> 'code \<Rightarrow> 'span encoderSink" where
  "onFail es spans code =
     es\<lparr>failSpanCount := failSpanCount es + word_of_nat (length spans),
        failedSpans := failedSpans es @ spans\<rparr>"

definition getSuccessSpanCount :: "'span encoderSink \<Rightarrow> go_int" where
  "getSuccessSpanCount es = successSpanCount es"

definition getEncodedRecords :: "'span encoderSink \<Rightarrow> EncodedRecord list" where
  "getEncodedRecords es = encodedRecords es"

definition getFailSpanCount :: "'span encoderSink \<Rightarrow> go_int" where
  "getFailSpanCount es = failSpanCount es"

definition getFailedSpans :: "'span encoderSink \<Rightarrow> 'span list" where
  "getFailedSpans es = failedSpans es"

text \<open>The zero value \<^verbatim>\<open>encoderSink{}\<close>.\<close>

definition encoderSink_zero :: "'span encoderSink" where
  "encoderSink_zero =
     \<lparr>successSpanCount = 0, encodedRecords = [], failSpanCount = 0, failedSpans = []\<rparr>"

text \<open>A sequence of calls on a sink; it ends at the first call that panics.\<close>

datatype ('span, 'shard, 'code) sink_call =
  OnReady "EncodedRecord option" "'span list" 'shard
  | OnFail "'span list" 'code

fun sink_calls ::
  "('span, 'shard, 'code) sink_call list \<Rightarrow> 'span encoderSink \<Rightarrow> 'span encoderSink option" where
  "sink_calls [] es = Some es"
| "sink_calls (OnReady rec spans shard # cs) es =
     (case onReady es rec spans shard of None \<Rightarrow> None | Some es' \<Rightarrow> sink_calls cs es')"
| "sink_calls (OnFail spans code # cs) es = sink_calls cs (onFail es spans code)"

text \<open>Example values: a record with a negative span count, calls and sinks.\<close>

definition record_negative :: EncodedRecord where
  "record_negative = \<lparr>PartitionKey = ''apple'', SpanCount = - 1, Payload = []\<rparr>"

text \<open>The relation between the counters and the lists of a sink.\<close>

definition sink_inv :: "'span encoderSink \<Rightarrow> bool" where
  "sink_inv es \<longleftrightarrow>
     successSpanCount es = word_of_int (sum_list (map SpanCount (encodedRecords es))) \<and>
     failSpanCount es = word_of_nat (length (failedSpans es))"

definition calls_example :: "(nat, unit, unit) sink_call list" where
  "calls_example = [OnReady (Some record_apple) [1] (), OnFail [2, 3] ()]"

definition sink_example :: "nat encoderSink" where
  "sink_example =
     \<lparr>successSpanCount = 3, encodedRecords = [record_apple], failSpanCount = 2,
      failedSpans = [2, 3]\<rparr>"

definition sink_negative :: "nat encoderSink" where
  "sink_negative =
     \<lparr>successSpanCount = - 1, encodedRecords = [record_negative], failSpanCount = 0,
      failedSpans = []\<rparr>"

subsection \<open>WaitForN\<close>

text \<open>time.Duration counts nanoseconds in an int64; the values are kept as integers here.\<close>

definition Millisecond :: int where
  "Millisecond = 1000000"

definition Second :: int where
  "Second = 1000 * Millisecond"

text \<open>The update of the waiting interval at the end of an iteration.\<close>

definition nextWaitInterval :: "int \<Rightarrow> int" where
  "nextWaitInterval waitInterval =
     (if waitInterval < Millisecond * 500 then waitInterval * 2 else waitInterval)"

text \<open>
  The loop of WaitForN. \<open>conds\<close> lists what the successive evaluations of \<open>cond()\<close>
  yield and \<open>elapseds\<close> what time.Since(startTime) reads in the successive iterations.
  The result is the return value (\<open>Some False\<close> goes with the recorded test error,
  \<open>None\<close> says that the loop is still running when the observations end) and the
  intervals waited, in order.
\<close>

fun WaitForN_loop :: "bool list \<Rightarrow> int list \<Rightarrow> int \<Rightarrow> int \<Rightarrow> bool option \<times> int list" where
  "WaitForN_loop [] elapseds duration waitInterval = (None, [])"
| "WaitForN_loop (c # conds) elapseds duration waitInterval =
     (if c then (Some True, [])
      else (case elapseds of
              [] \<Rightarrow> (None, [waitInterval])
            | elapsed # rest \<Rightarrow>
                (let waitInterval' = nextWaitInterval waitInterval
                 in if elapsed > duration then (Some False, [waitInterval])
                    else (case WaitForN_loop conds rest duration waitInterval' of
                            (r, ws) \<Rightarrow> (r, waitInterval # ws)))))"

definition WaitForN :: "bool list \<Rightarrow> int list \<Rightarrow> int \<Rightarrow> bool option \<times> int list" where
  "WaitForN conds elapseds duration = WaitForN_loop conds elapseds duration (Millisecond * 5)"

definition WaitFor :: "bool list \<Rightarrow> int list \<Rightarrow> bool option \<times> int list" where
  "WaitFor conds elapseds = WaitForN conds elapseds (Second * 10)"

text \<open>The values the waiting interval takes.\<close>

definition interval_steps :: "int list" where
  "interval_steps = map (\<lambda>k. k * Millisecond) [5, 10, 20, 40, 80, 160, 320, 640]"

section \<open>Properties of the mock server\<close>

lemmas example_defs = server_two_def grpc_open_def grpc_keyed_def record_apple_def
  request_one_def request_stale_def md_secret_def md_twice_def config_two_def shard_one_def
  shard_two_def SetConfig_def newMockServer_def SetRequiredHeaders_def GetConfig_def
  runServer_def Listen_def

subsection \<open>Key comparison and the matching loop\<close>

lemma Compare_list_lex: "Compare_list xs ys = lex_compare xs ys"
  by (induction xs ys rule: Compare_list.induct) (auto simp: lex_compare_def)

lemma Compare_list_zero: "Compare_list xs ys = 0 \<longleftrightarrow> xs = ys"
  by (induction xs ys rule: Compare_list.induct) auto

lemma compareHashKey_key_bytes:
  "compareHashKey k1 k2 = Compare_list (key_bytes k1) (key_bytes k2)"
  by (cases k1; cases k2) (simp_all add: compareHashKey_def bytes_Compare_def key_bytes_def)

lemma compareHashKey_zero: "compareHashKey k1 k2 = 0 \<longleftrightarrow> key_bytes k1 = key_bytes k2"
  by (simp add: compareHashKey_key_bytes Compare_list_zero)

lemma shardLoop_step:
  "shardLoop (Some sh) (Some s # rest) =
     (if exact_match s sh then Some True else shardLoop (Some sh) rest)"
  by (simp add: exact_match_def compareHashKey_zero)

lemma shardLoop_present:
  "shardLoop (Some sh) (map Some defs) = Some (list_ex (\<lambda>s. exact_match s sh) defs)"
  by (induction defs) (simp_all add: shardLoop_step del: shardLoop.simps(4))

text \<open>
  C9. compareHashKey is the lexicographic comparison of the two keys as byte sequences,
  a nil key read as the empty sequence. Hence shardIsPartOfConfig gives the same answer
  when a nil starting or ending key is replaced by an empty one, in the shard of the
  request as well as in a shard definition at any position of the configuration.
\<close>

theorem compareHashKey_nil_empty:
  "compareHashKey k1 k2 = lex_compare (key_bytes k1) (key_bytes k2) \<and>
   shardIsPartOfConfig (Some (sh\<lparr>StartingHashKey := None\<rparr>)) cfg =
     shardIsPartOfConfig (Some (sh\<lparr>StartingHashKey := Some []\<rparr>)) cfg \<and>
   shardIsPartOfConfig (Some (sh\<lparr>EndingHashKey := None\<rparr>)) cfg =
     shardIsPartOfConfig (Some (sh\<lparr>EndingHashKey := Some []\<rparr>)) cfg \<and>
   shardIsPartOfConfig shard
       (Some \<lparr>ShardDefinitions = ds1 @ Some (s\<lparr>StartingHashKey := None\<rparr>) # ds2\<rparr>) =
     shardIsPartOfConfig shard
       (Some \<lparr>ShardDefinitions = ds1 @ Some (s\<lparr>StartingHashKey := Some []\<rparr>) # ds2\<rparr>) \<and>
   shardIsPartOfConfig shard
       (Some \<lparr>ShardDefinitions = ds1 @ Some (s\<lparr>EndingHashKey := None\<rparr>) # ds2\<rparr>) =
     shardIsPartOfConfig shard
       (Some \<lparr>ShardDefinitions = ds1 @ Some (s\<lparr>EndingHashKey := Some []\<rparr>) # ds2\<rparr>)"
proof -
  have cmp: "compareHashKey k1 k2 = lex_compare (key_bytes k1) (key_bytes k2)"
    by (simp add: compareHashKey_key_bytes Compare_list_lex)
  have nil_l: "\<And>k. compareHashKey None k = compareHashKey (Some []) k"
    and nil_r: "\<And>k. compareHashKey k None = compareHashKey k (Some [])"
    by (simp_all add: compareHashKey_key_bytes key_bytes_def)
  have loop_s: "shardLoop (Some (sh\<lparr>StartingHashKey := None\<rparr>)) ds =
      shardLoop (Some (sh\<lparr>StartingHashKey := Some []\<rparr>)) ds" for ds
  proof (induction ds)
    case Nil
    show ?case by simp
  next
    case (Cons d ds)
    then show ?case by (cases d) (simp_all add: nil_r)
  qed
  have loop_e: "shardLoop (Some (sh\<lparr>EndingHashKey := None\<rparr>)) ds =
      shardLoop (Some (sh\<lparr>EndingHashKey := Some []\<rparr>)) ds" for ds
  proof (induction ds)
    case Nil
    show ?case by simp
  next
    case (Cons d ds)
    then show ?case by (cases d) (simp_all add: nil_r)
  qed
  have cfg_s: "shardLoop shard (ds1 @ Some (s\<lparr>StartingHashKey := None\<rparr>) # ds2) =
      shardLoop shard (ds1 @ Some (s\<lparr>StartingHashKey := Some []\<rparr>) # ds2)"
  proof (induction ds1)
    case Nil
    show ?case by (cases shard) (simp_all add: nil_l)
  next
    case (Cons d ds)
    then show ?case by (cases d; cases shard) simp_all
  qed
  have cfg_e: "shardLoop shard (ds1 @ Some (s\<lparr>EndingHashKey := None\<rparr>) # ds2) =
      shardLoop shard (ds1 @ Some (s\<lparr>EndingHashKey := Some []\<rparr>) # ds2)"
  proof (induction ds1)
    case Nil
    show ?case by (cases shard) (simp_all add: nil_l)
  next
    case (Cons d ds)
    then show ?case by (cases d; cases shard) simp_all
  qed
  have req_s: "shardIsPartOfConfig (Some (sh\<lparr>StartingHashKey := None\<rparr>)) cfg =
     shardIsPartOfConfig (Some (sh\<lparr>StartingHashKey := Some []\<rparr>)) cfg"
    by (cases cfg) (simp_all add: shardIsPartOfConfig_def loop_s)
  have req_e: "shardIsPartOfConfig (Some (sh\<lparr>EndingHashKey := None\<rparr>)) cfg =
     shardIsPartOfConfig (Some (sh\<lparr>EndingHashKey := Some []\<rparr>)) cfg"
    by (cases cfg) (simp_all add: shardIsPartOfConfig_def loop_e)
  show ?thesis
    using cmp req_s req_e cfg_s cfg_e by (simp add: shardIsPartOfConfig_def)
qed

text \<open>
  An instance: a nil key against an empty one compares equal, and shard 1 of the example
  map is still found when the request names its starting key as nil.
\<close>

theorem compareHashKey_nil_empty_witness:
  "compareHashKey None (Some []) = 0 \<and>
   shardIsPartOfConfig (Some (shard_one\<lparr>StartingHashKey := None\<rparr>)) (Some config_two) =
     Some True"
proof -
  note inst = compareHashKey_nil_empty [of None "Some []" shard_one "Some config_two"
      None "[]" shard_one "[]"]
  from inst have "compareHashKey None (Some []) = lex_compare (key_bytes None) (key_bytes (Some []))"
    by (rule conjunct1)
  then have a: "compareHashKey None (Some []) = 0"
    by (simp add: key_bytes_def lex_compare_def)
  from inst have "shardIsPartOfConfig (Some (shard_one\<lparr>StartingHashKey := None\<rparr>)) (Some config_two) =
     shardIsPartOfConfig (Some (shard_one\<lparr>StartingHashKey := Some []\<rparr>)) (Some config_two)"
    by (rule conjunct2 [THEN conjunct1])
  then have b: "shardIsPartOfConfig (Some (shard_one\<lparr>StartingHashKey := None\<rparr>)) (Some config_two) =
     Some True"
    by (simp add: shardIsPartOfConfig_def config_two_def shard_one_def shardLoop_step
        exact_match_def del: shardLoop.simps(4))
  from a b show ?thesis by (rule conjI)
qed

subsection \<open>The header check\<close>

lemma checkHeaderLoop_None: "checkHeaderLoop hs md = None \<longleftrightarrow> (\<forall>(k, v) \<in> set hs. md k = [v])"
proof (induction hs)
  case Nil
  show ?case by simp
next
  case (Cons p hs)
  obtain k v where p: "p = (k, v)" by (cases p)
  have "length (md k) = 1 \<and> md k ! 0 = v \<longleftrightarrow> md k = [v]"
    by (cases "md k") auto
  with Cons p show ?case by (auto simp: Let_def)
qed

lemma checkHeaderLoop_Some:
  "checkHeaderLoop hs md = Some e \<Longrightarrow>
     \<exists>k v. (k, v) \<in> set hs \<and> md k \<noteq> [v] \<and> e = HeaderError k v (md k)"
proof (induction hs)
  case Nil
  then show ?case by simp
next
  case (Cons p hs)
  obtain k v where p: "p = (k, v)" by (cases p)
  have eq: "length (md k) = 1 \<and> md k ! 0 = v \<longleftrightarrow> md k = [v]"
    by (cases "md k") auto
  show ?case
  proof (cases "md k = [v]")
    case True
    with Cons p show ?thesis by (auto simp: Let_def)
  next
    case False
    with eq have "length (md k) \<noteq> 1 \<or> md k ! 0 \<noteq> v" by blast
    with Cons.prems p have "e = HeaderError k v (md k)" by (auto simp: Let_def)
    with False p show ?thesis by auto
  qed
qed

lemma checkRequiredHeaders_plain:
  "checkRequiredHeaders g ctx = Some e \<Longrightarrow> status_code e = None"
  by (auto simp: checkRequiredHeaders_def split: if_splits option.splits
      dest!: checkHeaderLoop_Some)

lemma checkRequiredHeaders_frame [simp]:
  "checkRequiredHeaders (g\<lparr>srv := sv\<rparr>) ctx = checkRequiredHeaders g ctx"
  "checkRequiredHeaders (g\<lparr>onReceive := f\<rparr>) ctx = checkRequiredHeaders g ctx"
  by (simp_all add: checkRequiredHeaders_def split: option.splits)

subsection \<open>The stages of a call\<close>

lemma Export_rejected:
  "checkRequiredHeaders g ctx = Some e \<Longrightarrow> Export g ctx rnd req = (Returned (Inl e), srv g)"
  by (simp add: Export_def)

lemma GetShardingConfig_rejected:
  "checkRequiredHeaders g ctx = Some e \<Longrightarrow> GetShardingConfig g ctx = (Returned (Inl e), srv g)"
  by (simp add: GetShardingConfig_def)

lemma Export_matching:
  "checkRequiredHeaders g ctx = None \<Longrightarrow> \<not> (RandomServerError (srv g) \<and> rnd < float64_tenth) \<Longrightarrow>
   Export g ctx rnd req =
     (case shardIsPartOfConfig (Shard req) (GetConfig (srv g)) of
        None \<Rightarrow> (Panicked, srv g)
      | Some False \<Rightarrow>
          (Returned (Inr \<lparr>ResultCode = SHARD_CONFIG_MISTMATCH, ShardingConfig = GetConfig (srv g)\<rparr>),
           srv g)
      | Some True \<Rightarrow>
          (Returned (Inr \<lparr>ResultCode = nextResponseCode (onReceive g req (srv g)),
                          ShardingConfig = nextResponseShardingConfig (onReceive g req (srv g))\<rparr>),
           onReceive g req (srv g)))"
  by (auto simp: Export_def Let_def split: option.splits bool.splits)

lemma shardIsPartOfConfig_present:
  "ShardDefinitions cfg = map Some defs \<Longrightarrow>
   shardIsPartOfConfig (Some sh) (Some cfg) = Some (list_ex (\<lambda>s. exact_match s sh) defs)"
  by (simp add: shardIsPartOfConfig_def shardLoop_present)

text \<open>
  C10. With no required headers every call passes the header check. With required
  headers, a call without metadata is rejected, and so is a call in which a required key
  carries more than one value, also when the expected value is among them.
\<close>

theorem header_check_edge_cases:
  "(headers g = [] \<longrightarrow> checkRequiredHeaders g ctx = None) \<and>
   (headers g \<noteq> [] \<longrightarrow>
      checkRequiredHeaders g None = Some NoMetadataError \<and>
      Export g None rnd req = (Returned (Inl NoMetadataError), srv g) \<and>
      GetShardingConfig g None = (Returned (Inl NoMetadataError), srv g)) \<and>
   ((k, v) \<in> set (headers g) \<and> 1 < length (md k) \<longrightarrow>
      (\<exists>e. checkRequiredHeaders g (Some md) = Some e \<and>
           Export g (Some md) rnd req = (Returned (Inl e), srv g) \<and>
           GetShardingConfig g (Some md) = (Returned (Inl e), srv g)))"
proof (intro conjI impI)
  assume "headers g = []"
  then show "checkRequiredHeaders g ctx = None"
    by (simp add: checkRequiredHeaders_def)
next
  assume "headers g \<noteq> []"
  then show a: "checkRequiredHeaders g None = Some NoMetadataError"
    by (cases "headers g") (simp_all add: checkRequiredHeaders_def)
  from a show "Export g None rnd req = (Returned (Inl NoMetadataError), srv g)"
    by (rule Export_rejected)
  from a show "GetShardingConfig g None = (Returned (Inl NoMetadataError), srv g)"
    by (rule GetShardingConfig_rejected)
next
  assume h: "(k, v) \<in> set (headers g) \<and> 1 < length (md k)"
  then have "md k \<noteq> [v]" by auto
  with h have "checkHeaderLoop (headers g) md \<noteq> None"
    by (auto simp: checkHeaderLoop_None)
  moreover from h have "headers g \<noteq> []" by auto
  ultimately obtain e where e: "checkRequiredHeaders g (Some md) = Some e"
    by (cases "headers g") (auto simp: checkRequiredHeaders_def)
  then show "\<exists>e. checkRequiredHeaders g (Some md) = Some e \<and>
           Export g (Some md) rnd req = (Returned (Inl e), srv g) \<and>
           GetShardingConfig g (Some md) = (Returned (Inl e), srv g)"
    by (auto intro: Export_rejected GetShardingConfig_rejected)
qed

theorem header_check_edge_cases_witness:
  "headers grpc_open = [] \<and> checkRequiredHeaders grpc_open (Some md_twice) = None \<and>
   headers grpc_keyed \<noteq> [] \<and>
   Export grpc_keyed None 0 request_one = (Returned (Inl NoMetadataError), srv grpc_keyed) \<and>
   (''x-api-key'', ''secret'') \<in> set (headers grpc_keyed) \<and>
   ''secret'' \<in> set (md_twice ''x-api-key'') \<and> 1 < length (md_twice ''x-api-key'') \<and>
   checkRequiredHeaders grpc_keyed (Some md_twice) \<noteq> None"
proof -
  have h1: "headers grpc_open = []" by (simp add: example_defs)
  have h2: "headers grpc_keyed \<noteq> []" by (simp add: example_defs)
  have h3: "(''x-api-key'', ''secret'') \<in> set (headers grpc_keyed) \<and>
      1 < length (md_twice ''x-api-key'')" by (simp add: example_defs)
  have h4: "''secret'' \<in> set (md_twice ''x-api-key'')" by (simp add: example_defs)
  note inst1 = header_check_edge_cases [of grpc_open "Some md_twice" 0 request_one
      "''x-api-key''" "''secret''" md_twice]
  note inst2 = header_check_edge_cases [of grpc_keyed None 0 request_one
      "''x-api-key''" "''secret''" md_twice]
  from inst1 h1 have c1: "checkRequiredHeaders grpc_open (Some md_twice) = None" by blast
  from inst2 h2 have c2: "Export grpc_keyed None 0 request_one =
      (Returned (Inl NoMetadataError), srv grpc_keyed)" by blast
  from inst2 h3 have c3: "checkRequiredHeaders grpc_keyed (Some md_twice) \<noteq> None" by auto
  from h1 h2 h3 h4 c1 c2 c3 show ?thesis by simp
qed

text \<open>
  C6. A GetShardingConfig call that passes the header check returns the configuration the
  server holds and leaves the server as it was: configuration, sink and next-response
  fields.
\<close>

theorem GetShardingConfig_read_only:
  assumes "checkRequiredHeaders g ctx = None"
  shows "GetShardingConfig g ctx = (Returned (Inr (config (srv g))), srv g)"
  using assms by (simp add: GetShardingConfig_def GetConfig_def)

theorem GetShardingConfig_read_only_witness:
  "checkRequiredHeaders grpc_keyed (Some md_secret) = None \<and>
   GetShardingConfig grpc_keyed (Some md_secret) = (Returned (Inr (Some config_two)), server_two)"
proof -
  have h: "checkRequiredHeaders grpc_keyed (Some md_secret) = None"
    by (simp add: checkRequiredHeaders_def example_defs)
  from GetShardingConfig_read_only [OF h]
  have "GetShardingConfig grpc_keyed (Some md_secret) =
      (Returned (Inr (config (srv grpc_keyed))), srv grpc_keyed)" .
  moreover have "srv grpc_keyed = server_two" "config server_two = Some config_two"
    by (simp_all add: grpc_keyed_def runServer_def Listen_def SetRequiredHeaders_def server_two_def
        SetConfig_def)
  ultimately show ?thesis using h by simp
qed

subsection \<open>Export: the matching stage\<close>

text \<open>
  C1 (amended). When a call passes the header check and the simulated transient error
  does not fire, and the shard of the request is present and is an exact match of no
  shard definition of the server's configuration (a configuration without nil entries),
  Export answers SHARD\_CONFIG\_MISTMATCH with the configuration attached, and the
  server afterwards is the server before, whatever the callback: the record is not
  delivered.
\<close>

theorem Export_mismatch:
  assumes "checkRequiredHeaders g ctx = None"
    and "\<not> (RandomServerError (srv g) \<and> rnd < float64_tenth)"
    and "Shard req = Some sh"
    and "GetConfig (srv g) = Some cfg"
    and "ShardDefinitions cfg = map Some defs"
    and "\<not> list_ex (\<lambda>s. exact_match s sh) defs"
  shows "Export g ctx rnd req =
      (Returned (Inr \<lparr>ResultCode = SHARD_CONFIG_MISTMATCH, ShardingConfig = Some cfg\<rparr>), srv g)"
proof -
  from assms(3-6) have "shardIsPartOfConfig (Shard req) (GetConfig (srv g)) = Some False"
    by (simp add: shardIsPartOfConfig_present)
  with Export_matching [OF assms(1,2), of req] assms(4) show ?thesis by simp
qed

text \<open>
  The request for a shard that the example map does not have, sent with the required
  header: the answer is the mismatch with the map, and the sink stays empty.
\<close>

theorem Export_mismatch_witness:
  "checkRequiredHeaders grpc_keyed (Some md_secret) = None \<and>
   \<not> (RandomServerError (srv grpc_keyed) \<and> (0::rat) < float64_tenth) \<and>
   Shard request_stale = Some \<lparr>ShardId = 1, StartingHashKey = Some [], EndingHashKey = None\<rparr> \<and>
   GetConfig (srv grpc_keyed) = Some config_two \<and>
   ShardDefinitions config_two = map Some [shard_one, shard_two] \<and>
   \<not> list_ex (\<lambda>s. exact_match s \<lparr>ShardId = 1, StartingHashKey = Some [], EndingHashKey = None\<rparr>)
        [shard_one, shard_two] \<and>
   Export grpc_keyed (Some md_secret) 0 request_stale =
     (Returned (Inr \<lparr>ResultCode = SHARD_CONFIG_MISTMATCH, ShardingConfig = Some config_two\<rparr>),
      srv grpc_keyed) \<and>
   GetRecords (Sink (snd (Export grpc_keyed (Some md_secret) 0 request_stale))) = []"
proof -
  have h1: "checkRequiredHeaders grpc_keyed (Some md_secret) = None"
    by (simp add: checkRequiredHeaders_def example_defs)
  have h2: "\<not> (RandomServerError (srv grpc_keyed) \<and> (0::rat) < float64_tenth)"
    by (simp add: example_defs)
  have h3: "Shard request_stale =
      Some \<lparr>ShardId = 1, StartingHashKey = Some [], EndingHashKey = None\<rparr>"
    by (simp add: request_stale_def)
  have h4: "GetConfig (srv grpc_keyed) = Some config_two"
    by (simp add: GetConfig_def grpc_keyed_def runServer_def Listen_def SetRequiredHeaders_def
        server_two_def SetConfig_def)
  have h5: "ShardDefinitions config_two = map Some [shard_one, shard_two]"
    by (simp add: config_two_def)
  have h6: "\<not> list_ex (\<lambda>s. exact_match s
      \<lparr>ShardId = 1, StartingHashKey = Some [], EndingHashKey = None\<rparr>) [shard_one, shard_two]"
    by (simp add: exact_match_def shard_one_def shard_two_def key_bytes_def)
  note c = Export_mismatch [OF h1 h2 h3 h4 h5 h6]
  from c have "GetRecords (Sink (snd (Export grpc_keyed (Some md_secret) 0 request_stale))) = []"
    by (simp add: GetRecords_def example_defs)
  with h1 h2 h3 h4 h5 h6 c show ?thesis by blast
qed

text \<open>
  Without the restriction to calls that pass the header check the statement fails: the
  same request sent without metadata to the server that requires a header is answered
  with the header error, not with a mismatch response.
\<close>

theorem Export_mismatch_counterexample:
  "shardIsPartOfConfig (Shard request_stale) (GetConfig (srv grpc_keyed)) = Some False \<and>
   Export grpc_keyed None 0 request_stale = (Returned (Inl NoMetadataError), srv grpc_keyed)"
  by (simp add: Export_def checkRequiredHeaders_def shardIsPartOfConfig_def example_defs
      compareHashKey_def bytes_Compare_def)

text \<open>
  C2 (amended). When a call passes the header check and the simulated transient error
  does not fire, and the shard of the request is an exact match of a shard definition of
  the configuration (a configuration without nil entries), Export hands the request to
  the callback and answers with the next-response code and the next-response
  configuration of the server as the callback left it. With the callback of runServer
  the record of the request is appended to the sink's records, and on a server whose
  next-response fields are OK and nil the answer is OK with no configuration attached.
\<close>

theorem Export_match:
  assumes "checkRequiredHeaders g ctx = None"
    and "\<not> (RandomServerError (srv g) \<and> rnd < float64_tenth)"
    and "Shard req = Some sh"
    and "GetConfig (srv g) = Some cfg"
    and "ShardDefinitions cfg = map Some defs"
    and "list_ex (\<lambda>s. exact_match s sh) defs"
  shows "Export g ctx rnd req =
      (Returned (Inr \<lparr>ResultCode = nextResponseCode (onReceive g req (srv g)),
                      ShardingConfig = nextResponseShardingConfig (onReceive g req (srv g))\<rparr>),
       onReceive g req (srv g)) \<and>
    (onReceive g = onReceiveFunc \<longrightarrow>
       GetRecords (Sink (snd (Export g ctx rnd req))) = GetRecords (Sink (srv g)) @ [Record req] \<and>
       (nextResponseCode (srv g) = OK \<and> nextResponseShardingConfig (srv g) = None \<longrightarrow>
          fst (Export g ctx rnd req) = Returned (Inr \<lparr>ResultCode = OK, ShardingConfig = None\<rparr>)))"
proof -
  from assms(3-6) have "shardIsPartOfConfig (Shard req) (GetConfig (srv g)) = Some True"
    by (simp add: shardIsPartOfConfig_present)
  with Export_matching [OF assms(1,2), of req]
  have e: "Export g ctx rnd req =
      (Returned (Inr \<lparr>ResultCode = nextResponseCode (onReceive g req (srv g)),
                      ShardingConfig = nextResponseShardingConfig (onReceive g req (srv g))\<rparr>),
       onReceive g req (srv g))"
    by simp
  then show ?thesis
    by (simp add: onReceiveFunc_def onReceive_sink_def GetRecords_def)
qed

text \<open>
  The request for shard 1 of the example map, sent with the required header: the answer
  is OK without a map and the record is in the sink.
\<close>

theorem Export_match_witness:
  "checkRequiredHeaders grpc_keyed (Some md_secret) = None \<and>
   \<not> (RandomServerError (srv grpc_keyed) \<and> (0::rat) < float64_tenth) \<and>
   Shard request_one = Some shard_one \<and>
   GetConfig (srv grpc_keyed) = Some config_two \<and>
   ShardDefinitions config_two = map Some [shard_one, shard_two] \<and>
   list_ex (\<lambda>s. exact_match s shard_one) [shard_one, shard_two] \<and>
   onReceive grpc_keyed = onReceiveFunc \<and>
   nextResponseCode (srv grpc_keyed) = OK \<and> nextResponseShardingConfig (srv grpc_keyed) = None \<and>
   fst (Export grpc_keyed (Some md_secret) 0 request_one) =
     Returned (Inr \<lparr>ResultCode = OK, ShardingConfig = None\<rparr>) \<and>
   GetRecords (Sink (snd (Export grpc_keyed (Some md_secret) 0 request_one))) = [Some record_apple]"
proof -
  have h1: "checkRequiredHeaders grpc_keyed (Some md_secret) = None"
    by (simp add: checkRequiredHeaders_def example_defs)
  have h2: "\<not> (RandomServerError (srv grpc_keyed) \<and> (0::rat) < float64_tenth)"
    by (simp add: example_defs)
  have h3: "Shard request_one = Some shard_one"
    by (simp add: request_one_def)
  have h4: "GetConfig (srv grpc_keyed) = Some config_two"
    by (simp add: GetConfig_def grpc_keyed_def runServer_def Listen_def SetRequiredHeaders_def
        server_two_def SetConfig_def)
  have h5: "ShardDefinitions config_two = map Some [shard_one, shard_two]"
    by (simp add: config_two_def)
  have h6: "list_ex (\<lambda>s. exact_match s shard_one) [shard_one, shard_two]"
    by (simp add: exact_match_def)
  have h7: "onReceive grpc_keyed = onReceiveFunc"
    by (simp add: grpc_keyed_def runServer_def Listen_def SetRequiredHeaders_def)
  have h8: "nextResponseCode (srv grpc_keyed) = OK \<and>
      nextResponseShardingConfig (srv grpc_keyed) = None"
    by (simp add: example_defs)
  have h9: "GetRecords (Sink (srv grpc_keyed)) = []" "Record request_one = Some record_apple"
    by (simp_all add: GetRecords_def example_defs)
  note c = Export_match [OF h1 h2 h3 h4 h5 h6]
  from c h7 h8 have c1: "fst (Export grpc_keyed (Some md_secret) 0 request_one) =
     Returned (Inr \<lparr>ResultCode = OK, ShardingConfig = None\<rparr>)" by blast
  from c h7 have "GetRecords (Sink (snd (Export grpc_keyed (Some md_secret) 0 request_one))) =
     GetRecords (Sink (srv grpc_keyed)) @ [Record request_one]" by blast
  with h9 have c2: "GetRecords (Sink (snd (Export grpc_keyed (Some md_secret) 0 request_one))) =
     [Some record_apple]" by simp
  from h1 h2 h3 h4 h5 h6 h7 h8 c1 c2 show ?thesis by blast
qed

text \<open>
  Without the restriction on the next-response fields the statement fails: on a server
  whose next response is set to a mismatch with a map, the request for shard 1 matches
  and is still answered with the mismatch code and a map attached.
\<close>

theorem Export_match_counterexample:
  "shardIsPartOfConfig (Shard request_one) (GetConfig (srv grpc_scripted)) = Some True \<and>
   checkRequiredHeaders grpc_scripted None = None \<and>
   \<not> RandomServerError (srv grpc_scripted) \<and>
   fst (Export grpc_scripted None 0 request_one) =
     Returned (Inr \<lparr>ResultCode = SHARD_CONFIG_MISTMATCH, ShardingConfig = Some config_two\<rparr>)"
  by (simp add: Export_def checkRequiredHeaders_def shardIsPartOfConfig_def grpc_scripted_def
      example_defs compareHashKey_def bytes_Compare_def onReceiveFunc_def)

subsection \<open>Rejection by the header check\<close>

text \<open>
  C3 (amended). If required headers are configured, a call (Export or GetShardingConfig)
  without metadata, or whose metadata does not carry exactly the configured value under
  some configured key, is rejected with the error of the header check, a plain error
  that carries no gRPC status code. The rejection is the same whatever the request, the
  draw, the callback and the state of the server, which it leaves unchanged: it comes
  before shard matching and delivery.
\<close>

theorem required_headers_reject:
  assumes "headers g \<noteq> []"
    and "ctx = None \<or> (\<exists>md k v. ctx = Some md \<and> (k, v) \<in> set (headers g) \<and> md k \<noteq> [v])"
  shows "\<exists>e. checkRequiredHeaders g ctx = Some e \<and> status_code e = None \<and>
      (\<forall>rnd req f sv. Export (g\<lparr>srv := sv, onReceive := f\<rparr>) ctx rnd req = (Returned (Inl e), sv)) \<and>
      (\<forall>sv. GetShardingConfig (g\<lparr>srv := sv\<rparr>) ctx = (Returned (Inl e), sv))"
proof -
  have "checkRequiredHeaders g ctx \<noteq> None"
  proof (cases ctx)
    case None
    with assms(1) show ?thesis by (simp add: checkRequiredHeaders_def)
  next
    case (Some md)
    with assms(2) obtain k v where "(k, v) \<in> set (headers g)" "md k \<noteq> [v]" by auto
    then have "checkHeaderLoop (headers g) md \<noteq> None"
      by (auto simp: checkHeaderLoop_None)
    with assms(1) Some show ?thesis by (simp add: checkRequiredHeaders_def)
  qed
  then obtain e where e: "checkRequiredHeaders g ctx = Some e" by auto
  then have plain: "status_code e = None" by (rule checkRequiredHeaders_plain)
  have ex: "Export (g\<lparr>srv := sv, onReceive := f\<rparr>) ctx rnd req = (Returned (Inl e), sv)"
    for rnd req f sv
    using Export_rejected [of "g\<lparr>srv := sv, onReceive := f\<rparr>" ctx e rnd req] e by simp
  have gs: "GetShardingConfig (g\<lparr>srv := sv\<rparr>) ctx = (Returned (Inl e), sv)" for sv
    using GetShardingConfig_rejected [of "g\<lparr>srv := sv\<rparr>" ctx e] e by simp
  from e plain ex gs show ?thesis by blast
qed

text \<open>
  The scenario of the specification: the server requires \<open>x-api-key: secret\<close>; a call
  for the right shard whose metadata has no such header is rejected.
\<close>

theorem required_headers_reject_witness:
  "headers grpc_keyed \<noteq> [] \<and>
   (''x-api-key'', ''secret'') \<in> set (headers grpc_keyed) \<and>
   md_empty ''x-api-key'' \<noteq> [''secret''] \<and>
   status_code (HeaderError ''x-api-key'' ''secret'' []) = None \<and>
   Export grpc_keyed (Some md_empty) 0 request_one =
     (Returned (Inl (HeaderError ''x-api-key'' ''secret'' [])), srv grpc_keyed) \<and>
   GetShardingConfig grpc_keyed (Some md_empty) =
     (Returned (Inl (HeaderError ''x-api-key'' ''secret'' [])), srv grpc_keyed)"
proof -
  have h1: "headers grpc_keyed \<noteq> []" by (simp add: example_defs)
  have h2: "(''x-api-key'', ''secret'') \<in> set (headers grpc_keyed)" by (simp add: example_defs)
  have h3: "md_empty ''x-api-key'' \<noteq> [''secret'']" by (simp add: md_empty_def)
  from h2 h3 have h: "Some md_empty = None \<or>
      (\<exists>md k v. Some md_empty = Some md \<and> (k, v) \<in> set (headers grpc_keyed) \<and> md k \<noteq> [v])"
    by blast
  from required_headers_reject [OF h1 h] obtain e where
    e: "checkRequiredHeaders grpc_keyed (Some md_empty) = Some e" and
    p: "status_code e = None" and
    x: "\<And>rnd req f sv. Export (grpc_keyed\<lparr>srv := sv, onReceive := f\<rparr>) (Some md_empty) rnd req =
          (Returned (Inl e), sv)" and
    c: "\<And>sv. GetShardingConfig (grpc_keyed\<lparr>srv := sv\<rparr>) (Some md_empty) = (Returned (Inl e), sv)"
    by blast
  have "checkRequiredHeaders grpc_keyed (Some md_empty) =
      Some (HeaderError ''x-api-key'' ''secret'' [])"
    by (simp add: checkRequiredHeaders_def md_empty_def example_defs)
  with e have e': "e = HeaderError ''x-api-key'' ''secret'' []" by simp
  from x [where sv = "srv grpc_keyed" and f = "onReceive grpc_keyed" and rnd = 0 and req = request_one]
  have x': "Export grpc_keyed (Some md_empty) 0 request_one = (Returned (Inl e), srv grpc_keyed)"
    by simp
  from c [where sv = "srv grpc_keyed"]
  have c': "GetShardingConfig grpc_keyed (Some md_empty) = (Returned (Inl e), srv grpc_keyed)"
    by simp
  from h1 h2 h3 p x' c' show ?thesis unfolding e' by blast
qed

text \<open>
  The error of that rejection is the formatted plain error; its status code is not
  PermissionDenied (it has none).
\<close>

theorem required_headers_reject_counterexample:
  "fst (Export grpc_keyed (Some md_empty) 0 request_one) =
     Returned (Inl (HeaderError ''x-api-key'' ''secret'' [])) \<and>
   status_code (HeaderError ''x-api-key'' ''secret'' []) \<noteq> Some PermissionDenied"
  by (simp add: Export_def checkRequiredHeaders_def md_empty_def example_defs)

subsection \<open>Resubmission\<close>

text \<open>
  C4. Let the shard of a request be part of the server's configuration, the next-response
  code be OK, the required headers be satisfied and the error simulation be off, and let
  the callback leave the configuration, the next-response code and the simulation flag as
  they are (as the callback of runServer does). Then every one of any number of
  submissions of the request is answered with result code OK.
\<close>

theorem Export_idempotent:
  assumes "shardIsPartOfConfig (Shard req) (GetConfig (srv g)) = Some True"
    and "nextResponseCode (srv g) = OK"
    and "checkRequiredHeaders g ctx = None"
    and "\<not> RandomServerError (srv g)"
    and "\<forall>q sv. config (onReceive g q sv) = config sv"
    and "\<forall>q sv. nextResponseCode (onReceive g q sv) = nextResponseCode sv"
    and "\<forall>q sv. RandomServerError (onReceive g q sv) = RandomServerError sv"
  shows "map response_code (resubmit g ctx rnds req) = replicate (length rnds) (Some OK)"
  using assms
proof (induction rnds arbitrary: g)
  case Nil
  show ?case by simp
next
  case (Cons rnd rnds)
  let ?sv = "onReceive g req (srv g)"
  from Cons.prems(4) have "\<not> (RandomServerError (srv g) \<and> rnd < float64_tenth)" by simp
  from Export_matching [OF Cons.prems(3) this, of req] Cons.prems(1)
  have e: "Export g ctx rnd req =
      (Returned (Inr \<lparr>ResultCode = nextResponseCode ?sv,
                      ShardingConfig = nextResponseShardingConfig ?sv\<rparr>), ?sv)"
    by simp
  from Cons.prems(2,6) have code: "nextResponseCode ?sv = OK" by simp
  have "map response_code (resubmit (g\<lparr>srv := ?sv\<rparr>) ctx rnds req) =
      replicate (length rnds) (Some OK)"
  proof (rule Cons.IH)
    from Cons.prems(1,5)
    show "shardIsPartOfConfig (Shard req) (GetConfig (srv (g\<lparr>srv := ?sv\<rparr>))) = Some True"
      by (simp add: GetConfig_def)
    from code show "nextResponseCode (srv (g\<lparr>srv := ?sv\<rparr>)) = OK" by simp
    from Cons.prems(3) show "checkRequiredHeaders (g\<lparr>srv := ?sv\<rparr>) ctx = None" by simp
    from Cons.prems(4,7) show "\<not> RandomServerError (srv (g\<lparr>srv := ?sv\<rparr>))" by simp
    from Cons.prems(5)
    show "\<forall>q sv. config (onReceive (g\<lparr>srv := ?sv\<rparr>) q sv) = config sv" by simp
    from Cons.prems(6)
    show "\<forall>q sv. nextResponseCode (onReceive (g\<lparr>srv := ?sv\<rparr>) q sv) = nextResponseCode sv"
      by simp
    from Cons.prems(7)
    show "\<forall>q sv. RandomServerError (onReceive (g\<lparr>srv := ?sv\<rparr>) q sv) = RandomServerError sv"
      by simp
  qed
  with e code show ?case by simp
qed

theorem Export_idempotent_witness:
  "shardIsPartOfConfig (Shard request_one) (GetConfig (srv grpc_keyed)) = Some True \<and>
   nextResponseCode (srv grpc_keyed) = OK \<and>
   checkRequiredHeaders grpc_keyed (Some md_secret) = None \<and>
   \<not> RandomServerError (srv grpc_keyed) \<and>
   (\<forall>q sv. config (onReceive grpc_keyed q sv) = config sv) \<and>
   (\<forall>q sv. nextResponseCode (onReceive grpc_keyed q sv) = nextResponseCode sv) \<and>
   (\<forall>q sv. RandomServerError (onReceive grpc_keyed q sv) = RandomServerError sv) \<and>
   map response_code (resubmit grpc_keyed (Some md_secret) [0, 1 / 2, 9 / 10] request_one) =
     [Some OK, Some OK, Some OK]"
proof -
  have cb: "onReceive grpc_keyed = onReceiveFunc"
    by (simp add: grpc_keyed_def runServer_def Listen_def SetRequiredHeaders_def)
  have h1: "shardIsPartOfConfig (Shard request_one) (GetConfig (srv grpc_keyed)) = Some True"
    by (simp add: shardIsPartOfConfig_def example_defs compareHashKey_def bytes_Compare_def)
  have h2: "nextResponseCode (srv grpc_keyed) = OK" by (simp add: example_defs)
  have h3: "checkRequiredHeaders grpc_keyed (Some md_secret) = None"
    by (simp add: checkRequiredHeaders_def example_defs)
  have h4: "\<not> RandomServerError (srv grpc_keyed)" by (simp add: example_defs)
  have h5: "\<forall>q sv. config (onReceive grpc_keyed q sv) = config sv"
    by (simp add: cb onReceiveFunc_def)
  have h6: "\<forall>q sv. nextResponseCode (onReceive grpc_keyed q sv) = nextResponseCode sv"
    by (simp add: cb onReceiveFunc_def)
  have h7: "\<forall>q sv. RandomServerError (onReceive grpc_keyed q sv) = RandomServerError sv"
    by (simp add: cb onReceiveFunc_def)
  from Export_idempotent [OF h1 h2 h3 h4 h5 h6 h7, of "[0, 1 / 2, 9 / 10]"]
  have c: "map response_code (resubmit grpc_keyed (Some md_secret) [0, 1 / 2, 9 / 10] request_one) =
     [Some OK, Some OK, Some OK]"
    by (simp add: numeral_3_eq_3)
  from h1 h2 h3 h4 h5 h6 h7 c show ?thesis by blast
qed

subsection \<open>The simulated transient error\<close>

text \<open>
  C5. With RandomServerError off, Export never returns the Unavailable error. Whenever
  Export returns it, the server state is unchanged, and the same error comes back for
  every request, every callback and every configuration of the server: it is returned
  before shard matching and nothing is delivered.
\<close>

theorem transient_error_frame:
  "(\<not> RandomServerError (srv g) \<longrightarrow>
      outcome_status (fst (Export g ctx rnd req)) \<noteq> Some Unavailable) \<and>
   (outcome_status (fst (Export g ctx rnd req)) = Some Unavailable \<longrightarrow>
      snd (Export g ctx rnd req) = srv g \<and>
      (\<forall>req' f c. Export (g\<lparr>onReceive := f, srv := SetConfig (srv g) c\<rparr>) ctx rnd req' =
         (fst (Export g ctx rnd req), SetConfig (srv g) c)))"
proof (intro conjI impI)
  assume off: "\<not> RandomServerError (srv g)"
  show "outcome_status (fst (Export g ctx rnd req)) \<noteq> Some Unavailable"
  proof (cases "checkRequiredHeaders g ctx")
    case None
    with off show ?thesis
      by (simp add: Export_matching split: option.splits bool.splits)
  next
    case (Some e)
    then show ?thesis
      by (simp add: Export_rejected checkRequiredHeaders_plain)
  qed
next
  assume un: "outcome_status (fst (Export g ctx rnd req)) = Some Unavailable"
  have hd: "checkRequiredHeaders g ctx = None"
  proof (rule ccontr)
    assume "checkRequiredHeaders g ctx \<noteq> None"
    then obtain e where "checkRequiredHeaders g ctx = Some e" by auto
    with un show False by (simp add: Export_rejected checkRequiredHeaders_plain)
  qed
  have fire: "RandomServerError (srv g) \<and> rnd < float64_tenth"
  proof (rule ccontr)
    assume "\<not> (RandomServerError (srv g) \<and> rnd < float64_tenth)"
    from Export_matching [OF hd this, of req] un show False
      by (simp split: option.splits bool.splits)
  qed
  from hd fire show "snd (Export g ctx rnd req) = srv g"
    by (simp add: Export_def)
  from hd fire show "\<forall>req' f c. Export (g\<lparr>onReceive := f, srv := SetConfig (srv g) c\<rparr>) ctx rnd req' =
         (fst (Export g ctx rnd req), SetConfig (srv g) c)"
    by (simp add: Export_def SetConfig_def)
qed

theorem transient_error_frame_witness:
  "\<not> RandomServerError (srv grpc_open) \<and>
   outcome_status (fst (Export grpc_open None (1 / 20) request_one)) \<noteq> Some Unavailable \<and>
   outcome_status (fst (Export grpc_flaky None (1 / 20) request_one)) = Some Unavailable \<and>
   snd (Export grpc_flaky None (1 / 20) request_one) = srv grpc_flaky \<and>
   Export grpc_flaky None (1 / 20) request_stale = Export grpc_flaky None (1 / 20) request_one"
proof -
  have h1: "\<not> RandomServerError (srv grpc_open)" by (simp add: example_defs)
  have h2: "outcome_status (fst (Export grpc_flaky None (1 / 20) request_one)) = Some Unavailable"
    by (simp add: Export_def checkRequiredHeaders_def grpc_flaky_def float64_tenth_def example_defs)
  note a = transient_error_frame [of grpc_open None "1 / 20" request_one]
  note b = transient_error_frame [of grpc_flaky None "1 / 20" request_one]
  from a h1 have c1: "outcome_status (fst (Export grpc_open None (1 / 20) request_one)) \<noteq>
      Some Unavailable" by blast
  from b h2 have c2: "snd (Export grpc_flaky None (1 / 20) request_one) = srv grpc_flaky"
    by blast
  from b h2 have "\<forall>req' f c. Export (grpc_flaky\<lparr>onReceive := f, srv := SetConfig (srv grpc_flaky) c\<rparr>)
      None (1 / 20) req' =
      (fst (Export grpc_flaky None (1 / 20) request_one), SetConfig (srv grpc_flaky) c)"
    by blast
  then have "Export (grpc_flaky\<lparr>onReceive := onReceive grpc_flaky,
        srv := SetConfig (srv grpc_flaky) (config (srv grpc_flaky))\<rparr>) None (1 / 20) request_stale =
      (fst (Export grpc_flaky None (1 / 20) request_one),
       SetConfig (srv grpc_flaky) (config (srv grpc_flaky)))"
    by blast
  then have "Export grpc_flaky None (1 / 20) request_stale =
      (fst (Export grpc_flaky None (1 / 20) request_one), srv grpc_flaky)"
    by (simp add: SetConfig_def)
  with c2 have c3: "Export grpc_flaky None (1 / 20) request_stale =
      Export grpc_flaky None (1 / 20) request_one"
    by (simp add: prod_eq_iff)
  from h1 h2 c1 c2 c3 show ?thesis by blast
qed

section \<open>Properties of the test utilities\<close>

subsection \<open>The counters of encoderSink\<close>

lemma sink_inv_zero: "sink_inv encoderSink_zero"
  by (simp add: sink_inv_def encoderSink_zero_def)

lemma sink_inv_onReady: "sink_inv es \<Longrightarrow> onReady es rec spans shard = Some es' \<Longrightarrow> sink_inv es'"
  by (auto simp: sink_inv_def onReady_def split: option.splits)

lemma sink_inv_onFail: "sink_inv es \<Longrightarrow> sink_inv (onFail es spans code)"
  by (simp add: sink_inv_def onFail_def)

lemma sink_inv_calls: "sink_inv es \<Longrightarrow> sink_calls cs es = Some es' \<Longrightarrow> sink_inv es'"
proof (induction cs arbitrary: es)
  case Nil
  then show ?case by simp
next
  case (Cons c cs)
  show ?case
  proof (cases c)
    case (OnReady rec spans shard)
    with Cons.prems(2) obtain es1 where
      "onReady es rec spans shard = Some es1" "sink_calls cs es1 = Some es'"
      by (auto split: option.splits)
    with Cons.IH Cons.prems(1) show ?thesis by (blast intro: sink_inv_onReady)
  next
    case (OnFail spans code)
    with Cons.prems(2) have "sink_calls cs (onFail es spans code) = Some es'" by simp
    with Cons.IH Cons.prems(1) show ?thesis by (blast intro: sink_inv_onFail)
  qed
qed

lemma sint_add_in_range:
  fixes c :: go_int
  assumes "0 \<le> n" and "sint c + n < 2 ^ 63"
  shows "sint (c + word_of_int n) = sint c + n"
proof -
  have lo: "- (2 ^ 63) \<le> sint c" using sint_ge [of c] by simp
  have "c + word_of_int n = word_of_int (sint c + n)" by simp
  then have "sint (c + word_of_int n) = (sint c + n + 2 ^ 63) mod 2 ^ 64 - 2 ^ 63"
    by (simp only: int_word_sint) simp
  also from lo assms have "(sint c + n + 2 ^ 63) mod 2 ^ 64 = sint c + n + 2 ^ 63"
    by (intro mod_pos_pos_trivial) simp_all
  finally show ?thesis by simp
qed

text \<open>
  C7 (amended). After any sequence of onReady and onFail calls on a zero-valued
  encoderSink, the success counter is the sum of SpanCount over the appended records and
  the failure counter is the number of appended failed spans, both in the wrap-around
  arithmetic of Go's \<open>int\<close>. An onReady call with a record whose SpanCount is not
  negative, and with which the counter stays below \<open>2^63\<close>, adds SpanCount to the
  success counter and so does not decrease it.
\<close>

theorem encoderSink_counters:
  fixes cs :: "('span, 'shard, 'code) sink_call list"
  assumes "sink_calls cs encoderSink_zero = Some es"
  shows "getSuccessSpanCount es = word_of_int (sum_list (map SpanCount (getEncodedRecords es))) \<and>
    getFailSpanCount es = word_of_nat (length (getFailedSpans es)) \<and>
    (\<forall>r (spans :: 'span list) (shard :: 'shard) es'.
       onReady es (Some r) spans shard = Some es' \<and> 0 \<le> SpanCount r \<and>
       sint (getSuccessSpanCount es) + SpanCount r < 2 ^ 63 \<longrightarrow>
       sint (getSuccessSpanCount es') = sint (getSuccessSpanCount es) + SpanCount r \<and>
       sint (getSuccessSpanCount es) \<le> sint (getSuccessSpanCount es'))"
proof -
  from sink_inv_calls [OF sink_inv_zero assms] have "sink_inv es" .
  then have inv: "getSuccessSpanCount es = word_of_int (sum_list (map SpanCount (getEncodedRecords es)))"
      "getFailSpanCount es = word_of_nat (length (getFailedSpans es))"
    by (simp_all add: sink_inv_def getSuccessSpanCount_def getEncodedRecords_def
        getFailSpanCount_def getFailedSpans_def)
  have mono: "sint (getSuccessSpanCount es') = sint (getSuccessSpanCount es) + SpanCount r \<and>
       sint (getSuccessSpanCount es) \<le> sint (getSuccessSpanCount es')"
    if "onReady es (Some r) spans shard = Some es' \<and> 0 \<le> SpanCount r \<and>
       sint (getSuccessSpanCount es) + SpanCount r < 2 ^ 63"
    for r and spans :: "'span list" and shard :: 'shard and es'
  proof -
    from that have "successSpanCount es' = successSpanCount es + word_of_int (SpanCount r)"
      by (auto simp: onReady_def)
    moreover from that have "sint (successSpanCount es + word_of_int (SpanCount r)) =
        sint (successSpanCount es) + SpanCount r"
      by (intro sint_add_in_range) (simp_all add: getSuccessSpanCount_def)
    ultimately show ?thesis using that by (simp add: getSuccessSpanCount_def)
  qed
  from inv mono show ?thesis by blast
qed

theorem encoderSink_counters_witness:
  "sink_calls calls_example encoderSink_zero = Some sink_example \<and>
   getSuccessSpanCount sink_example =
     word_of_int (sum_list (map SpanCount (getEncodedRecords sink_example))) \<and>
   getFailSpanCount sink_example = word_of_nat (length (getFailedSpans sink_example)) \<and>
   onReady sink_example (Some record_apple) [4] () =
     Some (sink_example\<lparr>successSpanCount := 6, encodedRecords := [record_apple, record_apple]\<rparr>) \<and>
   0 \<le> SpanCount record_apple \<and>
   sint (getSuccessSpanCount sink_example) + SpanCount record_apple < 2 ^ 63 \<and>
   sint (getSuccessSpanCount sink_example) \<le>
     sint (getSuccessSpanCount
       (sink_example\<lparr>successSpanCount := 6, encodedRecords := [record_apple, record_apple]\<rparr>))"
proof -
  have h: "sink_calls calls_example encoderSink_zero = Some sink_example"
    by (simp add: calls_example_def sink_example_def encoderSink_zero_def onReady_def
        onFail_def record_apple_def)
  have r: "onReady sink_example (Some record_apple) [4] () =
     Some (sink_example\<lparr>successSpanCount := 6, encodedRecords := [record_apple, record_apple]\<rparr>) \<and>
     0 \<le> SpanCount record_apple \<and>
     sint (getSuccessSpanCount sink_example) + SpanCount record_apple < 2 ^ 63"
    by (simp add: sink_example_def onReady_def record_apple_def getSuccessSpanCount_def)
  note c = encoderSink_counters [OF h]
  from c r have m: "sint (getSuccessSpanCount sink_example) \<le>
     sint (getSuccessSpanCount
       (sink_example\<lparr>successSpanCount := 6, encodedRecords := [record_apple, record_apple]\<rparr>))"
    by blast
  from h r c m show ?thesis by blast
qed

text \<open>
  Without the restriction on SpanCount the counter can decrease: one onReady call with a
  record of span count \<open>-1\<close> takes the success counter from \<open>0\<close> to \<open>-1\<close>.
\<close>

theorem encoderSink_counters_counterexample:
  "onReady (encoderSink_zero :: nat encoderSink) (Some record_negative) [1] () = Some sink_negative \<and>
   sint (getSuccessSpanCount sink_negative) <
     sint (getSuccessSpanCount (encoderSink_zero :: nat encoderSink))"
  by (simp add: onReady_def encoderSink_zero_def sink_negative_def record_negative_def
      getSuccessSpanCount_def)

subsection \<open>The waiting intervals\<close>

lemma loop_nth:
  "i < length (snd (WaitForN_loop conds elapseds duration w)) \<Longrightarrow>
   snd (WaitForN_loop conds elapseds duration w) ! i = (nextWaitInterval ^^ i) w"
proof (induction conds arbitrary: elapseds w i)
  case Nil
  then show ?case by simp
next
  case (Cons c conds)
  show ?case
  proof (cases "c \<or> elapseds = []")
    case True
    with Cons.prems show ?thesis by (auto split: list.splits)
  next
    case False
    then obtain e rest where el: "elapseds = e # rest" and c: "\<not> c"
      by (cases elapseds) auto
    show ?thesis
    proof (cases "e > duration")
      case True
      with el c Cons.prems show ?thesis by (simp add: Let_def)
    next
      case False
      obtain r ws where rec: "WaitForN_loop conds rest duration (nextWaitInterval w) = (r, ws)"
        by (cases "WaitForN_loop conds rest duration (nextWaitInterval w)")
      with el c False have res: "snd (WaitForN_loop (c # conds) elapseds duration w) = w # ws"
        by (simp add: Let_def)
      show ?thesis
      proof (cases i)
        case 0
        with res show ?thesis by simp
      next
        case (Suc j)
        with Cons.prems res have "j < length ws" by simp
        with Cons.IH [of j rest "nextWaitInterval w"] rec
        have "ws ! j = (nextWaitInterval ^^ j) (nextWaitInterval w)" by simp
        with res Suc show ?thesis by (simp add: funpow_swap1)
      qed
    qed
  qed
qed

lemma nextWaitInterval_steps: "w \<in> set interval_steps \<Longrightarrow> nextWaitInterval w \<in> set interval_steps"
  by (auto simp: interval_steps_def nextWaitInterval_def Millisecond_def)

lemma funpow_steps: "w \<in> set interval_steps \<Longrightarrow> (nextWaitInterval ^^ i) w \<in> set interval_steps"
  by (induction i) (simp_all add: nextWaitInterval_steps)

lemma nextWaitInterval_ge: "0 \<le> w \<Longrightarrow> w \<le> nextWaitInterval w"
  by (simp add: nextWaitInterval_def)

text \<open>
  C8. The intervals that WaitForN waits between evaluations of the condition never
  decrease: the first is 5 ms, and each next one is twice the one before while that is
  below 500 ms, and the same otherwise. All of them lie between 5 ms and 640 ms, so the
  int64 arithmetic of the source does not overflow.
\<close>

theorem WaitForN_backoff:
  assumes "ws = snd (WaitForN conds elapseds duration)"
  shows "sorted ws \<and>
    (ws \<noteq> [] \<longrightarrow> hd ws = 5 * Millisecond) \<and>
    (\<forall>i. Suc i < length ws \<longrightarrow>
       ws ! Suc i = (if ws ! i < 500 * Millisecond then 2 * (ws ! i) else ws ! i)) \<and>
    (\<forall>w \<in> set ws. 5 * Millisecond \<le> w \<and> w \<le> 640 * Millisecond \<and> w < 2 ^ 63)"
proof -
  have nth: "ws ! i = (nextWaitInterval ^^ i) (Millisecond * 5)" if "i < length ws" for i
    using that loop_nth [of i conds elapseds duration "Millisecond * 5"] assms
    by (simp add: WaitForN_def)
  have start: "Millisecond * 5 \<in> set interval_steps"
    by (simp add: interval_steps_def)
  have mem: "ws ! i \<in> set interval_steps" if "i < length ws" for i
    using nth [OF that] funpow_steps [OF start, of i] by simp
  have step: "ws ! Suc i = nextWaitInterval (ws ! i)" if "Suc i < length ws" for i
    using nth [OF that] nth [of i] that by simp
  have bounds: "5 * Millisecond \<le> w \<and> w \<le> 640 * Millisecond \<and> w < 2 ^ 63"
    if "w \<in> set interval_steps" for w
    using that by (auto simp: interval_steps_def Millisecond_def)
  have "sorted ws"
    unfolding sorted_iff_nth_Suc
  proof (intro allI impI)
    fix i
    assume i: "Suc i < length ws"
    then have "0 \<le> ws ! i" using bounds [OF mem [of i]] by (simp add: Millisecond_def)
    then show "ws ! i \<le> ws ! Suc i"
      using step [OF i] nextWaitInterval_ge by simp
  qed
  moreover have "ws \<noteq> [] \<longrightarrow> hd ws = 5 * Millisecond"
    using nth [of 0] by (cases ws) simp_all
  moreover have "\<forall>i. Suc i < length ws \<longrightarrow>
       ws ! Suc i = (if ws ! i < 500 * Millisecond then 2 * (ws ! i) else ws ! i)"
    using step by (simp add: nextWaitInterval_def mult.commute)
  moreover have "\<forall>w \<in> set ws. 5 * Millisecond \<le> w \<and> w \<le> 640 * Millisecond \<and> w < 2 ^ 63"
    using mem bounds by (metis in_set_conv_nth)
  ultimately show ?thesis by blast
qed

theorem WaitForN_backoff_witness:
  "[5000000, 10000000, 20000000, 40000000, 80000000, 160000000, 320000000, 640000000, 640000000] =
     snd (WaitForN [False, False, False, False, False, False, False, False, False, True]
            [1, 2, 3, 4, 5, 6, 7, 8, 9] (Second * 10)) \<and>
   sorted [5000000, 10000000, 20000000, 40000000, 80000000, 160000000, 320000000, 640000000,
     640000000 :: int]"
proof -
  have h: "[5000000, 10000000, 20000000, 40000000, 80000000, 160000000, 320000000, 640000000,
      640000000] =
     snd (WaitForN [False, False, False, False, False, False, False, False, False, True]
            [1, 2, 3, 4, 5, 6, 7, 8, 9] (Second * 10))"
    by (simp add: WaitForN_def nextWaitInterval_def Millisecond_def Second_def)
  from WaitForN_backoff [OF h] have "sorted [5000000, 10000000, 20000000, 40000000, 80000000,
      160000000, 320000000, 640000000, 640000000 :: int]"
    by (rule conjunct1)
  with h show ?thesis by (rule conjI)
qed

end
